theory Spec2Isabelle
  imports Main "HOL-Library.Sublist"
begin

section \<open>The ESLint check action (src/index.js)\<close>

text \<open>
  The program is one linear workflow: create a check run, ask the platform for the files
  of the pull request, keep the lintable ones, run the lint engine, turn its report into
  annotations, and complete the check run. Everything outside the file (the HTTP helper
  \<open>request\<close>, octokit's GraphQL call, the ESLint engine, the clock, the file system, the
  process environment) is a field of the record \<open>world\<close>; every effect of the program is
  an \<open>event\<close> appended to a trace, and every \<open>throw\<close> is an \<open>Inl\<close>.

  The module's start-up block (the optional \<open>CUSTOM_DIRECTORY\<close> change of directory) runs
  before \<open>run()\<close> and is outside this model, which starts at the call of \<open>run\<close>.
\<close>

subsection \<open>Values\<close>

text \<open>A thrown JavaScript error: its name, its \<open>stack\<close> and its optional \<open>data\<close> property.\<close>

datatype js_error = JsError (err_name: string) (err_stack: string) (err_data: "string option")

definition TypeError :: "string \<Rightarrow> js_error" where
  "TypeError what = JsError ''TypeError'' what None"

text \<open>\<open>process.env\<close>: a variable that is not set reads as \<open>undefined\<close>, here \<open>None\<close>.\<close>

record env =
  GITHUB_SHA :: "string option"
  GITHUB_TOKEN :: "string option"
  GITHUB_WORKSPACE :: "string option"
  GITHUB_REPOSITORY :: "string option"

text \<open>
  What \<open>cli.executeOnFiles\<close> returns. Numbers are modelled as integers. The engine
  gives some messages no location and no rule (the warning for an ignored file), and
  gives a fatal parse error the rule \<open>null\<close>: \<open>line\<close> is \<open>None\<close> when the property is
  absent, and \<open>ruleId\<close> is absent, \<open>null\<close> or a string.
\<close>

datatype rule_ref = NoRule | NullRule | RuleId string

record lint_message =
  line :: "int option"
  severity :: int
  ruleId :: rule_ref
  message :: string

record lint_result =
  filePath :: string
  messages :: "lint_message list"

record lint_report =
  results :: "lint_result list"
  errorCount :: int
  warningCount :: int

text \<open>
  The annotation pushed at lines 97-103. \<open>annotation_level\<close> is \<open>None\<close> when the array
  read \<open>levels[severity]\<close> gives \<open>undefined\<close>; \<open>start_line\<close> and \<open>end_line\<close> are \<open>None\<close>
  when the message has no \<open>line\<close>. The fields \<open>ann_path\<close> and \<open>ann_message\<close>
  are the source's \<open>path\<close> and \<open>message\<close>.
\<close>

record annotation =
  ann_path :: string
  start_line :: "int option"
  end_line :: "int option"
  annotation_level :: "string option"
  ann_message :: string

record check_output =
  title :: string
  summary :: string
  annotations :: "annotation list"

text \<open>What \<open>eslint(files)\<close> returns (lines 107-114).\<close>

record eslint_return =
  ret_conclusion :: string
  ret_output :: check_output

text \<open>
  The body of a check-run request: the union of the fields of \<open>createCheck\<close>'s and
  \<open>updateCheck\<close>'s bodies; a field that is absent or \<open>undefined\<close> is \<open>None\<close>.
  The field \<open>body_output\<close> is the source's \<open>output\<close>.
\<close>

record check_body =
  name :: string
  head_sha :: "string option"
  status :: string
  started_at :: "nat option"
  completed_at :: "nat option"
  conclusion :: "string option"
  body_output :: "check_output option"

record http_request =
  url :: string
  http_method :: string
  headers :: "(string \<times> string) list"
  body :: check_body

text \<open>
  The check-run id read from a response: \<open>None\<close> is \<open>undefined\<close> (the response's \<open>data\<close>
  has no \<open>id\<close>). A response from which no \<open>data\<close> can be read is \<open>data = None\<close>.
\<close>

type_synonym check_id = "nat option"

record response =
  data :: "check_id option"

record pr_file =
  path :: string

text \<open>
  The answer of the GraphQL query, as far as the program reads it:
  \<open>pullRequest.commits.nodes[*].commit.oid\<close> and \<open>pullRequest.files.nodes\<close>.
\<close>

record pr_info =
  commit_oids :: "string list"
  files :: "pr_file list"

record gql_vars =
  owner :: string
  repo :: string
  prNumber :: int

record cli_options =
  extensions :: "string list"
  ignorePath :: string

subsection \<open>Events and the world\<close>

datatype log_arg =
    Str string
  | EnvDump
  | Cwd
  | PathInfo string "string option" string
  | CommitOid string
  | Files "pr_file list"

datatype event =
    Info log_arg
  | Warn string
  | Error string
  | ErrorData string
  | ConsoleLog "log_arg list"
  | Request http_request "js_error + response"
  | Graphql gql_vars
  | ExecuteOnFiles cli_options "string list"

text \<open>
  The collaborators of one run.
  \<^item> \<open>respond\<close> is the module \<open>./request\<close>, whose code is not in \<open>index.js\<close>; it is a
    parameter of the model. A call resolves to a response (\<open>Inr\<close>) or rejects (\<open>Inl\<close>).
    The three calls of a run send different requests (a POST, a PATCH with an output, a
    PATCH without), so a function of the request gives each call its own answer.
  \<^item> \<open>now\<close> is \<open>new Date()\<close>, read when the trace has the given length.
  \<^item> \<open>get_input\<close> is \<open>core.getInput('repo-token', {required: true})\<close> followed by the
    octokit constructor; \<open>gh_context\<close> is the reading of \<open>context.repo\<close> and
    \<open>context.issue\<close>. Both may throw.
  \<^item> \<open>graphql\<close> is \<open>octokit.graphql\<close> with the query of lines 154-173.
  \<^item> \<open>existsSync\<close> is \<open>fs.existsSync\<close>, which does not throw.
  \<^item> \<open>engine\<close> is \<open>new CLIEngine(options).executeOnFiles(files)\<close>.
\<close>

record world =
  environ :: env
  now :: "nat \<Rightarrow> nat"
  respond :: "http_request \<Rightarrow> js_error + response"
  get_input :: "js_error + string"
  gh_context :: "js_error + gql_vars"
  graphql :: "gql_vars \<Rightarrow> js_error + pr_info"
  existsSync :: "string \<Rightarrow> bool"
  engine :: "cli_options \<Rightarrow> string list \<Rightarrow> js_error + lint_report"

subsection \<open>Strings\<close>

definition digit_char :: "nat \<Rightarrow> char" where
  "digit_char d = char_of (of_char CHR ''0'' + d)"

fun show_nat :: "nat \<Rightarrow> string" where
  "show_nat n = (if n < 10 then [digit_char n] else show_nat (n div 10) @ [digit_char (n mod 10)])"

declare show_nat.simps [simp del]

definition show_int :: "int \<Rightarrow> string" where
  "show_int i = (if i < 0 then ''-'' @ show_nat (nat (- i)) else show_nat (nat i))"

text \<open>A template literal's \<open>${x}\<close> for a value that may be \<open>undefined\<close> or \<open>null\<close>.\<close>

definition show_undefined :: "string option \<Rightarrow> string" where
  "show_undefined x = (case x of None \<Rightarrow> ''undefined'' | Some s \<Rightarrow> s)"

definition show_rule :: "rule_ref \<Rightarrow> string" where
  "show_rule x = (case x of NoRule \<Rightarrow> ''undefined'' | NullRule \<Rightarrow> ''null'' | RuleId s \<Rightarrow> s)"

definition show_id :: "check_id \<Rightarrow> string" where
  "show_id i = (case i of None \<Rightarrow> ''undefined'' | Some n \<Rightarrow> show_nat n)"

text \<open>\<open>Array.prototype.join\<close>.\<close>

fun join_with :: "string \<Rightarrow> string list \<Rightarrow> string" where
  "join_with sep [] = ''''"
| "join_with sep [x] = x"
| "join_with sep (x # y # ys) = x @ sep @ join_with sep (y # ys)"

text \<open>
  \<open>String.prototype.substring(start)\<close> for \<open>start \<ge> 0\<close>: the start is clamped to the
  length of the string.
\<close>

definition substring :: "string \<Rightarrow> nat \<Rightarrow> string" where
  "substring s start = drop (min start (length s)) s"

text \<open>Reading \<open>xs[i]\<close> for an integer \<open>i\<close>: \<open>undefined\<close> outside the array.\<close>

definition js_index :: "'a list \<Rightarrow> int \<Rightarrow> 'a option" where
  "js_index xs i = (if 0 \<le> i \<and> i < int (length xs) then Some (xs ! nat i) else None)"

subsection \<open>Constants of the module\<close>

definition checkName :: string where
  "checkName = ''ESLint check''"

definition mk_headers :: "env \<Rightarrow> (string \<times> string) list" where
  "mk_headers e =
     [(''Content-Type'', ''application/json''),
      (''Accept'', ''application/vnd.github.antiope-preview+json''),
      (''Authorization'', ''Bearer '' @ show_undefined (GITHUB_TOKEN e)),
      (''User-Agent'', ''eslint-action'')]"

definition levels :: "string list" where
  "levels = ['''', ''warning'', ''failure'']"

definition EXTENSIONS_TO_LINT :: "string list" where
  "EXTENSIONS_TO_LINT = [''.mjs'', ''.js'', ''.ts'', ''.jsx'', ''.tsx'']"

definition engine_options :: cli_options where
  "engine_options = \<lparr>extensions = [''.js'', ''.jsx'', ''.tsx''], ignorePath = ''.gitignore''\<rparr>"

subsection \<open>eslint (lines 68-115)\<close>

text \<open>The object pushed for one message (lines 92-103).\<close>

definition mk_annotation :: "string \<Rightarrow> lint_message \<Rightarrow> annotation" where
  "mk_annotation p msg =
     \<lparr>ann_path = p,
      start_line = line msg,
      end_line = line msg,
      annotation_level = js_index levels (severity msg),
      ann_message = ''['' @ show_rule (ruleId msg) @ ''] '' @ message msg\<rparr>"

text \<open>The inner loop (lines 91-104).\<close>

fun annotate_messages :: "string \<Rightarrow> lint_message list \<Rightarrow> annotation list \<Rightarrow> annotation list" where
  "annotate_messages p [] anns = anns"
| "annotate_messages p (msg # msgs) anns = annotate_messages p msgs (anns @ [mk_annotation p msg])"

text \<open>
  The outer loop (lines 82-105). Reading \<open>GITHUB_WORKSPACE.length\<close> throws a TypeError
  when the variable is not set; nothing else in the loop throws.
\<close>

fun annotate_results ::
  "env \<Rightarrow> lint_result list \<Rightarrow> event list \<Rightarrow> annotation list \<Rightarrow> event list \<times> (js_error + annotation list)" where
  "annotate_results e [] tr anns = (tr, Inr anns)"
| "annotate_results e (r # rs) tr anns =
     (case GITHUB_WORKSPACE e of
        None \<Rightarrow> (tr, Inl (TypeError ''Cannot read property length of undefined''))
      | Some ws \<Rightarrow>
          let p = substring (filePath r) (length ws + 1)
          in annotate_results e rs
               (tr @ [Info (PathInfo (filePath r) (GITHUB_WORKSPACE e) p)])
               (annotate_messages p (messages r) anns))"

definition eslint :: "world \<Rightarrow> string list \<Rightarrow> event list \<Rightarrow> event list \<times> (js_error + eslint_return)" where
  "eslint w fs tr =
     (let tr1 = tr @ [ExecuteOnFiles engine_options fs]
      in case engine w engine_options fs of
           Inl err \<Rightarrow> (tr1, Inl err)
         | Inr report \<Rightarrow>
             (case annotate_results (environ w) (results report) tr1 [] of
                (tr2, Inl err) \<Rightarrow> (tr2, Inl err)
              | (tr2, Inr anns) \<Rightarrow>
                  (tr2, Inr
                    \<lparr>ret_conclusion = (if errorCount report > 0 then ''failure'' else ''success''),
                     ret_output =
                       \<lparr>title = checkName,
                        summary = show_int (errorCount report) @ '' error(s), ''
                                  @ show_int (warningCount report) @ '' warning(s) found'',
                        annotations = anns\<rparr>\<rparr>)))"

subsection \<open>path.extname\<close>

text \<open>
  \<open>extname\<close> is imported from Node's \<open>path\<close> module (line 1): it is not code of this
  repository. The model follows the POSIX implementation in Node's \<open>lib/path.js\<close>:
  \<^verbatim>\<open>
  let startDot = -1; let startPart = 0; let end = -1;
  let matchedSlash = true; let preDotState = 0;
  for (let i = path.length - 1; i >= 0; --i) {
    const code = path.charCodeAt(i);
    if (code === CHAR_FORWARD_SLASH) {
      if (!matchedSlash) { startPart = i + 1; break; }
      continue;
    }
    if (end === -1) { matchedSlash = false; end = i + 1; }
    if (code === CHAR_DOT) {
      if (startDot === -1) startDot = i;
      else if (preDotState !== 1) preDotState = 1;
    } else if (startDot !== -1) {
      preDotState = -1;
    }
  }
  if (startDot === -1 || end === -1 || preDotState === 0 ||
      (preDotState === 1 && startDot === end - 1 && startDot === startPart + 1))
    return '';
  return path.slice(startDot, end);
  \<close>
  The field \<open>endIdx\<close> is the variable \<open>end\<close>. In \<open>extname_loop p n s\<close> the number \<open>n\<close> is
  the loop's \<open>i + 1\<close>: the characters at the indices below \<open>n\<close> are still to be read.
\<close>

record ext_state =
  startDot :: int
  startPart :: int
  endIdx :: int
  matchedSlash :: bool
  preDotState :: int

fun extname_loop :: "string \<Rightarrow> nat \<Rightarrow> ext_state \<Rightarrow> ext_state" where
  "extname_loop p 0 s = s"
| "extname_loop p (Suc i) s =
     (if p ! i = CHR ''/'' then
        (if \<not> matchedSlash s then s\<lparr>startPart := int i + 1\<rparr>
         else extname_loop p i s)
      else
        let s1 = (if endIdx s = - 1 then s\<lparr>endIdx := int i + 1, matchedSlash := False\<rparr> else s);
            s2 = (if p ! i = CHR ''.'' then
                    (if startDot s1 = - 1 then s1\<lparr>startDot := int i\<rparr>
                     else if preDotState s1 \<noteq> 1 then s1\<lparr>preDotState := 1\<rparr>
                     else s1)
                  else if startDot s1 \<noteq> - 1 then s1\<lparr>preDotState := - 1\<rparr>
                  else s1)
        in extname_loop p i s2)"

definition ext_init :: ext_state where
  "ext_init = \<lparr>startDot = - 1, startPart = 0, endIdx = - 1, matchedSlash = True, preDotState = 0\<rparr>"

text \<open>\<open>path.slice(a, b)\<close> for \<open>0 \<le> a\<close> and \<open>0 \<le> b\<close>.\<close>

definition slice :: "string \<Rightarrow> int \<Rightarrow> int \<Rightarrow> string" where
  "slice p a b = take (nat b - nat a) (drop (nat a) p)"

definition extname :: "string \<Rightarrow> string" where
  "extname p =
     (let s = extname_loop p (length p) ext_init
      in if startDot s = - 1 \<or> endIdx s = - 1 \<or> preDotState s = 0 \<or>
            (preDotState s = 1 \<and> startDot s = endIdx s - 1 \<and> startDot s = startPart s + 1)
         then []
         else slice p (startDot s) (endIdx s))"

subsection \<open>The lint target filter (lines 184-193)\<close>

text \<open>\<open>EXTENSIONS_TO_LINT.has(x)\<close> on the set built from the five literals.\<close>

definition has_extension :: "string \<Rightarrow> bool" where
  "has_extension x = (x \<in> set EXTENSIONS_TO_LINT)"

definition filesToLint :: "pr_file list \<Rightarrow> string list" where
  "filesToLint fs = map path (filter (\<lambda>file. has_extension (extname (path file))) fs)"

definition nothing_to_lint :: string where
  "nothing_to_lint =
     ''No files with ['' @ join_with '', '' EXTENSIONS_TO_LINT
       @ ''] extensions added or modified in this PR, nothing to lint...''"

subsection \<open>createCheck, updateCheck, exitWithError\<close>

definition check_runs_url :: "env \<Rightarrow> string" where
  "check_runs_url e =
     ''https://api.github.com/repos/'' @ show_undefined (GITHUB_REPOSITORY e) @ ''/check-runs''"

text \<open>The request that \<open>createCheck\<close> sends when the trace so far is \<open>tr\<close> (lines 52-63).\<close>

definition create_request :: "world \<Rightarrow> event list \<Rightarrow> http_request" where
  "create_request w tr =
     \<lparr>url = check_runs_url (environ w),
      http_method = ''POST'',
      headers = mk_headers (environ w),
      body = \<lparr>name = checkName,
              head_sha = GITHUB_SHA (environ w),
              status = ''in_progress'',
              started_at = Some (now w (length tr)),
              completed_at = None,
              conclusion = None,
              body_output = None\<rparr>\<rparr>"

text \<open>
  \<open>createCheck\<close> (lines 51-66). Destructuring \<open>{ id } = data\<close> throws a TypeError when
  the response has no \<open>data\<close>.
\<close>

definition createCheck :: "world \<Rightarrow> event list \<Rightarrow> event list \<times> (js_error + check_id)" where
  "createCheck w tr =
     (let req = create_request w tr;
          tr1 = tr @ [Request req (respond w req)]
      in case respond w req of
           Inl err \<Rightarrow> (tr1, Inl err)
         | Inr resp \<Rightarrow>
             (case data resp of
                None \<Rightarrow> (tr1, Inl (TypeError ''Cannot destructure property id of undefined''))
              | Some i \<Rightarrow> (tr1, Inr i)))"

text \<open>The request that \<open>updateCheck(id, conclusion, output)\<close> sends (lines 118-131).\<close>

definition update_request ::
  "world \<Rightarrow> check_id \<Rightarrow> string option \<Rightarrow> check_output option \<Rightarrow> event list \<Rightarrow> http_request" where
  "update_request w i c out tr =
     \<lparr>url = check_runs_url (environ w) @ ''/'' @ show_id i,
      http_method = ''PATCH'',
      headers = mk_headers (environ w),
      body = \<lparr>name = checkName,
              head_sha = GITHUB_SHA (environ w),
              status = ''completed'',
              started_at = None,
              completed_at = Some (now w (length tr)),
              conclusion = c,
              body_output = out\<rparr>\<rparr>"

definition updateCheck ::
  "world \<Rightarrow> check_id \<Rightarrow> string option \<Rightarrow> check_output option \<Rightarrow> event list
     \<Rightarrow> event list \<times> (js_error + unit)" where
  "updateCheck w i c out tr =
     (let req = update_request w i c out tr;
          tr1 = tr @ [Request req (respond w req)]
      in case respond w req of
           Inl err \<Rightarrow> (tr1, Inl err)
         | Inr resp \<Rightarrow> (tr1, Inr ()))"

text \<open>
  \<open>exitWithError\<close> (lines 134-140): it logs and ends the process with code 1. The test
  \<open>if (err.data)\<close> is false for a missing and for an empty \<open>data\<close>.
\<close>

definition exitWithError :: "js_error \<Rightarrow> event list \<Rightarrow> event list \<times> nat" where
  "exitWithError err tr =
     (let tr1 = tr @ [Error (err_stack err)];
          tr2 = (case err_data err of
                   None \<Rightarrow> tr1
                 | Some d \<Rightarrow> if d = [] then tr1 else tr1 @ [ErrorData d])
      in (tr2, 1))"

subsection \<open>run (lines 142-221)\<close>

text \<open>How the \<open>try\<close> block ends: it returns, it calls \<open>process.exit\<close>, or it throws.\<close>

datatype completion = Returned | Exited nat | Threw js_error

definition isFileOk :: "world \<Rightarrow> string \<Rightarrow> bool" where
  "isFileOk w p = (if existsSync w p then True else False)"

text \<open>The body of the \<open>try\<close> block (lines 149-213), for the check run \<open>i\<close>.\<close>

definition run_try :: "world \<Rightarrow> check_id \<Rightarrow> event list \<Rightarrow> event list \<times> completion" where
  "run_try w i tr =
     (case get_input w of
        Inl err \<Rightarrow> (tr, Threw err)
      | Inr token \<Rightarrow>
     (case gh_context w of
        Inl err \<Rightarrow> (tr, Threw err)
      | Inr vars \<Rightarrow>
     (let tr1 = tr @ [Graphql vars]
      in case graphql w vars of
        Inl err \<Rightarrow> (tr1, Threw err)
      | Inr prInfo \<Rightarrow>
     (case commit_oids prInfo of
        [] \<Rightarrow> (tr1, Threw (TypeError ''Cannot read property commit of undefined''))
      | currentSha # _ \<Rightarrow>
     (let tr2 = tr1 @ [Info (CommitOid currentSha), Info (Files (files prInfo))];
          fs = filesToLint (files prInfo)
      in if length fs < 1 then (tr2 @ [Warn nothing_to_lint], Returned)
         else
           let tr3 = (if \<not> list_all (isFileOk w) fs
                      then tr2 @ [ConsoleLog [Str ''Something not fine'', Cwd]] else tr2);
               tr4 = tr3 @ [Info (Str ''Started linting...'')]
           in case eslint w fs tr4 of
                (tr5, Inl err) \<Rightarrow> (tr5, Threw err)
              | (tr5, Inr ret) \<Rightarrow>
                  let tr6 = tr5 @ [Info (Str ''Ended linting.''),
                                   Info (Str (summary (ret_output ret)))]
                  in (case updateCheck w i (Some (ret_conclusion ret)) (Some (ret_output ret)) tr6 of
                        (tr7, Inl err) \<Rightarrow> (tr7, Threw err)
                      | (tr7, Inr _) \<Rightarrow>
                          if ret_conclusion ret = ''failure'' then (tr7, Exited 78)
                          else (tr7, Returned)))))))"

text \<open>
  The \<open>catch\<close> block (lines 214-217): \<open>updateCheck(id, 'failure')\<close>, then \<open>exitWithError\<close>.
  When that update rejects, \<open>run\<close>'s promise rejects with the update's error and the
  handler of line 221 calls \<open>exitWithError\<close> with it.
\<close>

definition run_catch :: "world \<Rightarrow> check_id \<Rightarrow> js_error \<Rightarrow> event list \<Rightarrow> event list \<times> nat" where
  "run_catch w i err tr =
     (case updateCheck w i (Some ''failure'') None tr of
        (tr1, Inl err2) \<Rightarrow> exitWithError err2 tr1
      | (tr1, Inr _) \<Rightarrow> exitWithError err tr1)"

definition run_start :: "event list" where
  "run_start = [Info EnvDump, Info Cwd, Info (Str ''Creating check...'')]"

text \<open>
  \<open>run().catch(exitWithError)\<close>: the trace of the whole run and the exit code of the
  process. A run that returns without \<open>process.exit\<close> ends with code 0.
\<close>

definition run :: "world \<Rightarrow> event list \<times> nat" where
  "run w =
     (case createCheck w run_start of
        (tr1, Inl err) \<Rightarrow> exitWithError err tr1
      | (tr1, Inr i) \<Rightarrow>
          (case run_try w i (tr1 @ [Info (Str ''Created check.'')]) of
             (tr2, Threw err) \<Rightarrow> run_catch w i err tr2
           | (tr2, Exited code) \<Rightarrow> (tr2, code)
           | (tr2, Returned) \<Rightarrow> (tr2, 0)))"

subsection \<open>Observations on a trace\<close>

fun is_lint_call :: "event \<Rightarrow> bool" where
  "is_lint_call (ExecuteOnFiles opts fs) = True"
| "is_lint_call _ = False"

text \<open>A completing update: a request whose body has the status \<open>completed\<close>.\<close>

fun is_update :: "event \<Rightarrow> bool" where
  "is_update (Request req res) = (status (body req) = ''completed'')"
| "is_update _ = False"

text \<open>The requests of a trace with the platform's answers, in order.\<close>

fun exchanges :: "event list \<Rightarrow> (http_request \<times> (js_error + response)) list" where
  "exchanges [] = []"
| "exchanges (Request req res # evs) = (req, res) # exchanges evs"
| "exchanges (ev # evs) = exchanges evs"

text \<open>
  The same world, except that every commit oid in the answer of the GraphQL query is
  replaced by its image under \<open>f\<close>.
\<close>

definition rename_oids :: "(string \<Rightarrow> string) \<Rightarrow> world \<Rightarrow> world" where
  "rename_oids f w = w\<lparr>graphql := (\<lambda>v. map_sum id (\<lambda>p. p\<lparr>commit_oids := map f (commit_oids p)\<rparr>) (graphql w v))\<rparr>"

subsection \<open>Example runs\<close>

text \<open>
  A world in which every collaborator answers: the pull request has the files \<open>fs\<close> and
  the engine's outcome is \<open>eng\<close>. The examples below change one collaborator at a time.
\<close>

definition env0 :: env where
  "env0 = \<lparr>GITHUB_SHA = Some ''abc123'', GITHUB_TOKEN = Some ''t0k'',
            GITHUB_WORKSPACE = Some ''/home/ws'', GITHUB_REPOSITORY = Some ''octo/demo''\<rparr>"

definition vars0 :: gql_vars where
  "vars0 = \<lparr>owner = ''octo'', repo = ''demo'', prNumber = 7\<rparr>"

definition world0 :: "pr_file list \<Rightarrow> js_error + lint_report \<Rightarrow> world" where
  "world0 fs eng =
     \<lparr>environ = env0,
      now = (\<lambda>n. 1000 + n),
      respond = (\<lambda>req. Inr \<lparr>data = Some (Some 42)\<rparr>),
      get_input = Inr ''t0k'',
      gh_context = Inr vars0,
      graphql = (\<lambda>v. Inr \<lparr>commit_oids = [''def456''], files = fs\<rparr>),
      existsSync = (\<lambda>p. True),
      engine = (\<lambda>opts targets. eng)\<rparr>"

definition msg0 :: "int \<Rightarrow> lint_message" where
  "msg0 sev = \<lparr>line = Some 3, severity = sev, ruleId = RuleId ''semi'', message = ''Missing semicolon.''\<rparr>"

definition report0 :: "string \<Rightarrow> int \<Rightarrow> int \<Rightarrow> int \<Rightarrow> lint_report" where
  "report0 fp sev ec wc =
     \<lparr>results = [\<lparr>filePath = fp, messages = [msg0 sev]\<rparr>], errorCount = ec, warningCount = wc\<rparr>"

definition boom :: js_error where
  "boom = JsError ''Error'' ''boom'' None"

definition bad_gateway :: js_error where
  "bad_gateway = JsError ''HttpError'' ''502'' (Some ''bad gateway'')"

text \<open>The world in which the pull-request query is rejected.\<close>

definition world_query_fails :: world where
  "world_query_fails = (world0 [] (Inl boom))\<lparr>graphql := (\<lambda>v. Inl bad_gateway)\<rparr>"

text \<open>The world in which the engine crashes, and the one whose workspace root is not set.\<close>

definition world_engine_crash :: world where
  "world_engine_crash = world0 [\<lparr>path = ''a.js''\<rparr>] (Inl boom)"

definition world_no_workspace :: world where
  "world_no_workspace =
     (world0 [\<lparr>path = ''a.js''\<rparr>] (Inr (report0 ''/home/ws/a.js'' 2 1 0)))
       \<lparr>environ := env0\<lparr>GITHUB_WORKSPACE := None\<rparr>\<rparr>"

section \<open>Properties\<close>

subsection \<open>The two loops of eslint\<close>

lemma annotate_messages_eq: "annotate_messages p msgs anns = anns @ map (mk_annotation p) msgs"
  by (induction msgs arbitrary: anns) auto

lemma substring_drop: "substring s n = drop n s"
  by (simp add: substring_def min_def)

lemma annotate_results_workspace:
  "GITHUB_WORKSPACE e = Some ws \<Longrightarrow>
   snd (annotate_results e rs tr anns) =
     Inr (anns @ concat (map (\<lambda>r. map (mk_annotation (substring (filePath r) (length ws + 1)))
                                     (messages r)) rs))"
  by (induction rs arbitrary: tr anns) (auto simp: annotate_messages_eq Let_def)

text \<open>The loop only appends to the trace it is given, and its result does not depend on it.\<close>

lemma annotate_results_trace:
  "fst (annotate_results e rs tr anns) = tr @ fst (annotate_results e rs [] anns)"
proof (induction rs arbitrary: tr anns)
  case Nil
  then show ?case by simp
next
  case (Cons r rs)
  show ?case
  proof (cases "GITHUB_WORKSPACE e")
    case None
    then show ?thesis by simp
  next
    case (Some ws)
    let ?ev = "Info (PathInfo (filePath r) (Some ws) (substring (filePath r) (length ws + 1)))"
    from Some show ?thesis
      using Cons.IH [of "tr @ [?ev]"] Cons.IH [of "[?ev]"]
      by (simp add: Let_def)
  qed
qed

lemma annotate_results_result:
  "snd (annotate_results e rs tr anns) = snd (annotate_results e rs [] anns)"
proof (induction rs arbitrary: tr anns)
  case Nil
  then show ?case by simp
next
  case (Cons r rs)
  show ?case
  proof (cases "GITHUB_WORKSPACE e")
    case None
    then show ?thesis by simp
  next
    case (Some ws)
    let ?ev = "Info (PathInfo (filePath r) (Some ws) (substring (filePath r) (length ws + 1)))"
    from Some show ?thesis
      using Cons.IH [of "tr @ [?ev]"] Cons.IH [of "[?ev]"]
      by (simp add: Let_def)
  qed
qed

lemma annotate_results_infos:
  "ev \<in> set (fst (annotate_results e rs [] anns)) \<Longrightarrow> \<exists>a. ev = Info a"
proof (induction rs arbitrary: anns)
  case Nil
  then show ?case by simp
next
  case (Cons r rs)
  show ?case
  proof (cases "GITHUB_WORKSPACE e")
    case None
    with Cons.prems show ?thesis by simp
  next
    case (Some ws)
    let ?p = "substring (filePath r) (length ws + 1)"
    let ?ev = "Info (PathInfo (filePath r) (Some ws) ?p)"
    from Some Cons.prems
    have "ev \<in> set (fst (annotate_results e rs [?ev] (annotate_messages ?p (messages r) anns)))"
      by (simp add: Let_def)
    then have "ev = ?ev \<or> ev \<in> set (fst (annotate_results e rs [] (annotate_messages ?p (messages r) anns)))"
      using annotate_results_trace [of e rs "[?ev]"] by auto
    then show ?thesis
      using Cons.IH by blast
  qed
qed

lemma annotate_results_levels:
  "snd (annotate_results e rs tr anns) = Inr anns' \<Longrightarrow>
   map annotation_level anns' =
     map annotation_level anns @ map (\<lambda>msg. js_index levels (severity msg)) (concat (map messages rs))"
proof (induction rs arbitrary: tr anns)
  case Nil
  then show ?case by simp
next
  case (Cons r rs)
  show ?case
  proof (cases "GITHUB_WORKSPACE e")
    case None
    with Cons.prems show ?thesis by simp
  next
    case (Some ws)
    with Cons.prems Cons.IH show ?thesis
      by (simp add: Let_def annotate_messages_eq comp_def mk_annotation_def)
  qed
qed

lemma level_of_severity:
  "js_index levels sev =
     (if sev = 1 then Some ''warning''
      else if sev = 2 then Some ''failure''
      else if sev = 0 then Some ''''
      else None)"
proof -
  have "sev < 0 \<or> sev = 0 \<or> sev = 1 \<or> sev = 2 \<or> 3 \<le> sev"
    by arith
  then show ?thesis
    by (auto simp: js_index_def levels_def)
qed

text \<open>What \<open>eslint\<close> returns when it returns.\<close>

lemma eslint_Inr:
  "engine w engine_options fs = Inr report \<Longrightarrow> snd (eslint w fs tr) = Inr ret \<Longrightarrow>
   ret_conclusion ret = (if errorCount report > 0 then ''failure'' else ''success'') \<and>
   snd (annotate_results (environ w) (results report) [] []) = Inr (annotations (ret_output ret))"
  using annotate_results_result [of "environ w" "results report" "tr @ [ExecuteOnFiles engine_options fs]" "[]"]
  by (auto simp: eslint_def Let_def split: sum.splits prod.splits)

lemma eslint_trace_split:
  "eslint w fs tr = (tr @ fst (eslint w fs []), snd (eslint w fs []))"
proof (cases "engine w engine_options fs")
  case (Inl err)
  then show ?thesis by (simp add: eslint_def)
next
  case (Inr report)
  have a: "fst (annotate_results (environ w) (results report) (tr @ [ExecuteOnFiles engine_options fs]) []) =
     tr @ fst (annotate_results (environ w) (results report) [ExecuteOnFiles engine_options fs] [])"
    using annotate_results_trace [of "environ w" "results report" "tr @ [ExecuteOnFiles engine_options fs]" "[]"]
          annotate_results_trace [of "environ w" "results report" "[ExecuteOnFiles engine_options fs]" "[]"]
    by simp
  have b: "snd (annotate_results (environ w) (results report) (tr @ [ExecuteOnFiles engine_options fs]) []) =
     snd (annotate_results (environ w) (results report) [ExecuteOnFiles engine_options fs] [])"
    using annotate_results_result [of "environ w" "results report" "tr @ [ExecuteOnFiles engine_options fs]" "[]"]
          annotate_results_result [of "environ w" "results report" "[ExecuteOnFiles engine_options fs]" "[]"]
    by simp
  obtain t1 r1 where c: "annotate_results (environ w) (results report) [ExecuteOnFiles engine_options fs] [] = (t1, r1)"
    by (cases "annotate_results (environ w) (results report) [ExecuteOnFiles engine_options fs] []")
  with a b have d: "annotate_results (environ w) (results report) (tr @ [ExecuteOnFiles engine_options fs]) [] = (tr @ t1, r1)"
    by (simp add: prod_eq_iff)
  from Inr c d show ?thesis
    by (simp add: eslint_def split: sum.splits)
qed

lemma eslint_throws_engine:
  "engine w engine_options fs = Inl err \<Longrightarrow> snd (eslint w fs tr) = Inl err"
  by (simp add: eslint_def)

lemma eslint_throws_workspace:
  "engine w engine_options fs = Inr report \<Longrightarrow> results report \<noteq> [] \<Longrightarrow>
   GITHUB_WORKSPACE (environ w) = None \<Longrightarrow>
   snd (eslint w fs tr) = Inl (TypeError ''Cannot read property length of undefined'')"
  by (cases "results report") (simp_all add: eslint_def Let_def)

subsection \<open>The conclusion of a report\<close>

lemma annotate_results_returns:
  "GITHUB_WORKSPACE e = Some root \<or> rs = [] \<Longrightarrow> \<exists>anns'. snd (annotate_results e rs tr anns) = Inr anns'"
  using annotate_results_workspace [of e root rs tr anns] by auto

lemma annotate_results_throws:
  "GITHUB_WORKSPACE e = None \<Longrightarrow> rs \<noteq> [] \<Longrightarrow> \<exists>err. annotate_results e rs tr anns = (tr, Inl err)"
  by (cases rs) auto

lemma eslint_total:
  assumes "engine w engine_options fs = Inr report"
    and "GITHUB_WORKSPACE (environ w) = Some root \<or> results report = []"
  shows "\<exists>anns. snd (eslint w fs tr) =
           Inr \<lparr>ret_conclusion = (if errorCount report > 0 then ''failure'' else ''success''),
                ret_output = \<lparr>title = checkName,
                  summary = show_int (errorCount report) @ '' error(s), ''
                            @ show_int (warningCount report) @ '' warning(s) found'',
                  annotations = anns\<rparr>\<rparr>"
proof -
  obtain anns where "snd (annotate_results (environ w) (results report)
      (tr @ [ExecuteOnFiles engine_options fs]) []) = Inr anns"
    using annotate_results_returns [OF assms(2)] by blast
  with assms(1) show ?thesis
    by (auto simp: eslint_def Let_def split: prod.splits sum.splits)
qed

text \<open>
  C1. When the engine returns a report, and the workspace root is set or the report has
  no result (otherwise \<open>eslint\<close> throws and there is no report), \<open>eslint\<close> returns, and
  the conclusion it returns is \<open>failure\<close> exactly when the report's \<open>errorCount\<close> is
  greater than 0, whatever the \<open>warningCount\<close>; otherwise it is \<open>success\<close>.
\<close>

theorem conclusion_failure_iff_errors:
  assumes "engine w engine_options fs = Inr report"
    and "GITHUB_WORKSPACE (environ w) = Some root \<or> results report = []"
  shows "\<exists>ret. snd (eslint w fs tr) = Inr ret
           \<and> (ret_conclusion ret = ''failure'') = (0 < errorCount report)
           \<and> (ret_conclusion ret = ''success'') = (errorCount report \<le> 0)"
  using eslint_total [OF assms, of tr] by auto

theorem conclusion_failure_iff_errors_witness:
  "engine (world0 [] (Inr (report0 ''/home/ws/a.js'' 2 1 0))) engine_options [''a.js'']
     = Inr (report0 ''/home/ws/a.js'' 2 1 0)
   \<and> GITHUB_WORKSPACE (environ (world0 [] (Inr (report0 ''/home/ws/a.js'' 2 1 0)))) = Some ''/home/ws''
   \<and> 0 < errorCount (report0 ''/home/ws/a.js'' 2 1 0)
   \<and> (\<exists>ret. snd (eslint (world0 [] (Inr (report0 ''/home/ws/a.js'' 2 1 0))) [''a.js''] []) = Inr ret
          \<and> ret_conclusion ret = ''failure'')
   \<and> engine (world0 [] (Inr (report0 ''/home/ws/a.js'' 1 0 5))) engine_options [''a.js'']
     = Inr (report0 ''/home/ws/a.js'' 1 0 5)
   \<and> GITHUB_WORKSPACE (environ (world0 [] (Inr (report0 ''/home/ws/a.js'' 1 0 5)))) = Some ''/home/ws''
   \<and> errorCount (report0 ''/home/ws/a.js'' 1 0 5) = 0
   \<and> (\<exists>ret. snd (eslint (world0 [] (Inr (report0 ''/home/ws/a.js'' 1 0 5))) [''a.js''] []) = Inr ret
          \<and> ret_conclusion ret = ''success'')"
proof -
  let ?rep1 = "report0 ''/home/ws/a.js'' 2 1 0"
  let ?rep2 = "report0 ''/home/ws/a.js'' 1 0 5"
  have e1: "engine (world0 [] (Inr ?rep1)) engine_options [''a.js''] = Inr ?rep1"
    by (simp add: world0_def)
  have g1: "GITHUB_WORKSPACE (environ (world0 [] (Inr ?rep1))) = Some ''/home/ws''"
    by (simp add: world0_def env0_def)
  have c1: "0 < errorCount ?rep1"
    by (simp add: report0_def)
  have e2: "engine (world0 [] (Inr ?rep2)) engine_options [''a.js''] = Inr ?rep2"
    by (simp add: world0_def)
  have g2: "GITHUB_WORKSPACE (environ (world0 [] (Inr ?rep2))) = Some ''/home/ws''"
    by (simp add: world0_def env0_def)
  have c2: "errorCount ?rep2 = 0"
    by (simp add: report0_def)
  from conclusion_failure_iff_errors [OF e1 disjI1, OF g1, of "[]"] c1
  have r1: "\<exists>ret. snd (eslint (world0 [] (Inr ?rep1)) [''a.js''] []) = Inr ret \<and> ret_conclusion ret = ''failure''"
    by auto
  from conclusion_failure_iff_errors [OF e2 disjI1, OF g2, of "[]"] c2
  have r2: "\<exists>ret. snd (eslint (world0 [] (Inr ?rep2)) [''a.js''] []) = Inr ret \<and> ret_conclusion ret = ''success''"
    by auto
  from e1 g1 c1 r1 e2 g2 c2 r2 show ?thesis
    by blast
qed

subsection \<open>Severity and annotation level\<close>

text \<open>
  C2, as the code has it. Every message of the report yields exactly one annotation, in
  order; its level is \<open>warning\<close> for severity 1 and \<open>failure\<close> for severity 2. A message of
  severity 0 is not dropped: it yields an annotation whose level is the empty string
  (and any other severity one whose level is undefined).
\<close>

theorem severity_levels_one_per_message:
  assumes "engine w engine_options fs = Inr report"
    and "snd (eslint w fs tr) = Inr ret"
  shows "map annotation_level (annotations (ret_output ret)) =
           map (\<lambda>msg. if severity msg = 1 then Some ''warning''
                      else if severity msg = 2 then Some ''failure''
                      else if severity msg = 0 then Some ''''
                      else None)
               (concat (map messages (results report)))"
proof -
  have "snd (annotate_results (environ w) (results report) [] []) = Inr (annotations (ret_output ret))"
    using eslint_Inr [OF assms] by simp
  from annotate_results_levels [OF this] show ?thesis
    by (simp add: level_of_severity)
qed

theorem severity_levels_one_per_message_witness:
  "engine (world0 [] (Inr (report0 ''/home/ws/a.js'' 2 1 0))) engine_options [''a.js'']
     = Inr (report0 ''/home/ws/a.js'' 2 1 0)
   \<and> snd (eslint (world0 [] (Inr (report0 ''/home/ws/a.js'' 2 1 0))) [''a.js''] []) =
       Inr \<lparr>ret_conclusion = ''failure'',
            ret_output = \<lparr>title = ''ESLint check'', summary = ''1 error(s), 0 warning(s) found'',
              annotations = [\<lparr>ann_path = ''a.js'', start_line = Some 3, end_line = Some 3,
                 annotation_level = Some ''failure'', ann_message = ''[semi] Missing semicolon.''\<rparr>]\<rparr>\<rparr>
   \<and> [Some ''failure''] =
       map (\<lambda>msg. if severity msg = 1 then Some ''warning''
                  else if severity msg = 2 then Some ''failure''
                  else if severity msg = 0 then Some ''''
                  else None)
           (concat (map messages (results (report0 ''/home/ws/a.js'' 2 1 0))))"
proof -
  let ?rep = "report0 ''/home/ws/a.js'' 2 1 0"
  let ?w = "world0 [] (Inr ?rep)"
  let ?ret = "\<lparr>ret_conclusion = ''failure'',
            ret_output = \<lparr>title = ''ESLint check'', summary = ''1 error(s), 0 warning(s) found'',
              annotations = [\<lparr>ann_path = ''a.js'', start_line = Some 3, end_line = Some 3,
                 annotation_level = Some ''failure'', ann_message = ''[semi] Missing semicolon.''\<rparr>]\<rparr>\<rparr>"
  have h1: "engine ?w engine_options [''a.js''] = Inr ?rep"
    by (simp add: world0_def)
  have h2: "snd (eslint ?w [''a.js''] []) = Inr ?ret"
    by code_simp
  from severity_levels_one_per_message [OF h1 h2] h1 h2 show ?thesis
    by simp
qed

text \<open>
  The claim as stated fails: a report with one message of severity 0 gives one annotation,
  and its level is the empty string.
\<close>

theorem severity_zero_counterexample:
  "snd (eslint (world0 [] (Inr (report0 ''/home/ws/a.js'' 0 0 0))) [''a.js''] []) =
     Inr \<lparr>ret_conclusion = ''success'',
          ret_output = \<lparr>title = ''ESLint check'', summary = ''0 error(s), 0 warning(s) found'',
            annotations = [\<lparr>ann_path = ''a.js'', start_line = Some 3, end_line = Some 3,
               annotation_level = Some '''', ann_message = ''[semi] Missing semicolon.''\<rparr>]\<rparr>\<rparr>"
  by code_simp

subsection \<open>Rebasing a file path\<close>

text \<open>
  C3, as the code has it. With the workspace root set, the loop never throws: each
  annotation's path is the result's \<open>filePath\<close> without its first \<open>length root + 1\<close>
  characters, whether or not \<open>filePath\<close> starts with the root. When \<open>filePath\<close> is the
  root, one separator character and a rest, that path is the rest.
\<close>

theorem rebase_drops_without_check:
  assumes "GITHUB_WORKSPACE e = Some root"
  shows "snd (annotate_results e rs tr anns) =
           Inr (anns @ concat (map (\<lambda>r. map (mk_annotation (drop (length root + 1) (filePath r)))
                                          (messages r)) rs))
         \<and> substring (root @ sep # rest) (length root + 1) = rest"
  using annotate_results_workspace [OF assms, of rs tr anns]
  by (simp add: substring_drop)

theorem rebase_drops_without_check_witness:
  "GITHUB_WORKSPACE env0 = Some ''/home/ws''
   \<and> snd (annotate_results env0 [\<lparr>filePath = ''/home/ws/a/b.js'', messages = [msg0 1]\<rparr>] [] []) =
       Inr ([] @ concat (map (\<lambda>r. map (mk_annotation (drop (length ''/home/ws'' + 1) (filePath r)))
                                      (messages r))
                              [\<lparr>filePath = ''/home/ws/a/b.js'', messages = [msg0 1]\<rparr>]))
   \<and> substring (''/home/ws'' @ CHR ''/'' # ''a/b.js'') (length ''/home/ws'' + 1) = ''a/b.js''"
proof -
  have h: "GITHUB_WORKSPACE env0 = Some ''/home/ws''"
    by (simp add: env0_def)
  from rebase_drops_without_check [OF h] h show ?thesis
    by blast
qed

text \<open>
  The claim as stated fails: a \<open>filePath\<close> outside the workspace root raises nothing and
  gives the annotation the path \<open>js\<close>.
\<close>

theorem rebase_counterexample:
  "snd (annotate_results env0 [\<lparr>filePath = ''/other/x.js'', messages = [msg0 2]\<rparr>] [] []) =
     Inr [\<lparr>ann_path = ''js'', start_line = Some 3, end_line = Some 3,
           annotation_level = Some ''failure'', ann_message = ''[semi] Missing semicolon.''\<rparr>]"
  by code_simp

subsection \<open>The lint target filter\<close>

lemma filesToLint_filter:
  "filesToLint fs = filter (\<lambda>p. extname p \<in> set EXTENSIONS_TO_LINT) (map path fs)"
  by (simp add: filesToLint_def has_extension_def filter_map comp_def)

text \<open>
  C5. The filter's output is the list of the changed files' paths, in the same order and
  with the same repetitions, restricted to the paths whose extension is one of
  \<open>.mjs\<close>, \<open>.js\<close>, \<open>.ts\<close>, \<open>.jsx\<close>, \<open>.tsx\<close>; in particular it is a subsequence of the input.
\<close>

theorem filter_keeps_lintable_in_order:
  "filesToLint fs =
     filter (\<lambda>p. extname p \<in> {''.mjs'', ''.js'', ''.ts'', ''.jsx'', ''.tsx''}) (map path fs)
   \<and> subseq (filesToLint fs) (map path fs)"
  by (simp add: filesToLint_filter EXTENSIONS_TO_LINT_def)

lemma extname_dotfile_in_dir:
  "e \<in> set EXTENSIONS_TO_LINT \<Longrightarrow> extname (d @ CHR ''/'' # e) = []"
  apply (simp add: EXTENSIONS_TO_LINT_def)
  apply (elim disjE)
  apply (simp_all add: extname_def ext_init_def Let_def nth_append eval_nat_numeral)
  done

lemma extname_dotfile:
  "e \<in> set EXTENSIONS_TO_LINT \<Longrightarrow> extname e = []"
  apply (simp add: EXTENSIONS_TO_LINT_def)
  apply (elim disjE)
  apply (simp_all add: extname_def ext_init_def Let_def eval_nat_numeral)
  done

text \<open>
  C10. A file whose name is exactly one of the lintable extensions (such as \<open>.js\<close>), at
  the top of the repository or in any directory \<open>d\<close>, has the empty extension and is
  not selected by the filter.
\<close>

theorem dotfile_not_selected:
  assumes "e \<in> {''.mjs'', ''.js'', ''.ts'', ''.jsx'', ''.tsx''}"
  shows "extname e = [] \<and> extname (d @ CHR ''/'' # e) = []
         \<and> e \<notin> set (filesToLint fs) \<and> d @ CHR ''/'' # e \<notin> set (filesToLint fs)"
proof -
  from assms have mem: "e \<in> set EXTENSIONS_TO_LINT"
    by (simp add: EXTENSIONS_TO_LINT_def)
  have empty: "[] \<notin> set EXTENSIONS_TO_LINT"
    by (simp add: EXTENSIONS_TO_LINT_def)
  show ?thesis
    using extname_dotfile [OF mem] extname_dotfile_in_dir [OF mem, of d] empty
    by (simp add: filesToLint_filter)
qed

theorem dotfile_not_selected_witness:
  "''.js'' \<in> {''.mjs'', ''.js'', ''.ts'', ''.jsx'', ''.tsx''}
   \<and> extname ''.js'' = [] \<and> extname (''src'' @ CHR ''/'' # ''.js'') = []
   \<and> ''.js'' \<notin> set (filesToLint [\<lparr>path = ''.js''\<rparr>, \<lparr>path = ''src/.js''\<rparr>, \<lparr>path = ''a.js''\<rparr>])
   \<and> ''src'' @ CHR ''/'' # ''.js''
       \<notin> set (filesToLint [\<lparr>path = ''.js''\<rparr>, \<lparr>path = ''src/.js''\<rparr>, \<lparr>path = ''a.js''\<rparr>])"
proof -
  have h: "''.js'' \<in> {''.mjs'', ''.js'', ''.ts'', ''.jsx'', ''.tsx''}"
    by simp
  from dotfile_not_selected [OF h] h show ?thesis
    by blast
qed

subsection \<open>Requests of a run\<close>

lemma exchanges_append: "exchanges (xs @ ys) = exchanges xs @ exchanges ys"
  by (induction xs rule: exchanges.induct) auto

lemma exchanges_infos: "(\<And>ev. ev \<in> set xs \<Longrightarrow> \<exists>a. ev = Info a) \<Longrightarrow> exchanges xs = []"
  by (induction xs rule: exchanges.induct) auto

lemma exchanges_annotate:
  "exchanges (fst (annotate_results e rs tr anns)) = exchanges tr"
  using annotate_results_trace [of e rs tr anns] exchanges_infos [of "fst (annotate_results e rs [] anns)"]
    annotate_results_infos [of _ e rs anns]
  by (simp add: exchanges_append)

lemma eslint_exchanges: "eslint w fs tr = (tr', r) \<Longrightarrow> exchanges tr' = exchanges tr"
  using exchanges_annotate [of "environ w" _ "tr @ [ExecuteOnFiles engine_options fs]" "[]"]
  by (auto simp: eslint_def Let_def exchanges_append split: sum.splits prod.splits
       dest: arg_cong [where f = "\<lambda>x. exchanges (fst x)"])

lemma eslint_conclusion_cases:
  "eslint w fs tr = (tr', Inr ret) \<Longrightarrow> ret_conclusion ret = ''failure'' \<or> ret_conclusion ret = ''success''"
  by (auto simp: eslint_def Let_def split: sum.splits prod.splits if_splits)

lemma eslint_facts:
  "eslint w fs tr = (tr', r) \<Longrightarrow>
   exchanges tr' = exchanges tr \<and>
   (\<forall>ret. r = Inr ret \<longrightarrow> ret_conclusion ret = ''failure'' \<or> ret_conclusion ret = ''success'')"
  using eslint_exchanges [of w fs tr tr' r] eslint_conclusion_cases [of w fs tr tr']
  by blast

lemma createCheck_Inr:
  "createCheck w tr = (tr1, Inr i) \<Longrightarrow>
   tr1 = tr @ [Request (create_request w tr) (respond w (create_request w tr))]"
  by (auto simp: createCheck_def Let_def split: sum.splits option.splits)

lemma createCheck_exchanges:
  "createCheck w tr = (tr1, r) \<Longrightarrow>
   exchanges tr1 = exchanges tr @ [(create_request w tr, respond w (create_request w tr))]"
  by (auto simp: createCheck_def Let_def exchanges_append split: sum.splits option.splits)

lemma createCheck_set:
  assumes "createCheck w run_start = (tr1, r)"
  shows "set (exchanges (tr1 @ [Info (Str ''Created check.'')])) =
           {(create_request w run_start, respond w (create_request w run_start))}"
  using createCheck_exchanges [OF assms] by (simp add: exchanges_append run_start_def)

lemma exitWithError_eq:
  "snd (exitWithError err tr) = 1 \<and> exchanges (fst (exitWithError err tr)) = exchanges tr"
  by (auto simp: exitWithError_def Let_def exchanges_append split: option.splits)

lemma run_catch_eq:
  "snd (run_catch w i err tr) = 1 \<and>
   exchanges (fst (run_catch w i err tr)) =
     exchanges tr @ [(update_request w i (Some ''failure'') None tr,
                      respond w (update_request w i (Some ''failure'') None tr))]"
  by (auto simp: run_catch_def updateCheck_def exitWithError_def Let_def exchanges_append
      split: sum.splits option.splits)

lemma run_try_query_fails:
  "get_input w = Inr token \<Longrightarrow> gh_context w = Inr vars \<Longrightarrow> graphql w vars = Inl err \<Longrightarrow>
   run_try w i tr = (tr @ [Graphql vars], Threw err)"
  by (simp add: run_try_def)

lemma run_try_exchanges:
  assumes "run_try w i tr = (tr', c)" and "(req, res) \<in> set (exchanges tr')"
  shows "(req, res) \<in> set (exchanges tr) \<or>
     (status (body req) = ''completed'' \<and> body_output (body req) \<noteq> None \<and>
      head_sha (body req) = GITHUB_SHA (environ w) \<and>
      (case res of
         Inl e \<Rightarrow> c = Threw e
       | Inr _ \<Rightarrow> (conclusion (body req) = Some ''failure'' \<and> c = Exited 78) \<or>
                  (conclusion (body req) = Some ''success'' \<and> c = Returned)))"
  using assms
  by (auto simp: run_try_def Let_def updateCheck_def exchanges_append update_request_def
      split: sum.splits list.splits if_splits prod.splits
      dest!: eslint_facts)

lemma run_cases:
  obtains
    (create_failed) tr1 err where "createCheck w run_start = (tr1, Inl err)" "run w = exitWithError err tr1"
  | (caught) tr1 i tr2 err where "createCheck w run_start = (tr1, Inr i)"
      "run_try w i (tr1 @ [Info (Str ''Created check.'')]) = (tr2, Threw err)"
      "run w = run_catch w i err tr2"
  | (exited) tr1 i tr2 code where "createCheck w run_start = (tr1, Inr i)"
      "run_try w i (tr1 @ [Info (Str ''Created check.'')]) = (tr2, Exited code)"
      "run w = (tr2, code)"
  | (returned) tr1 i tr2 where "createCheck w run_start = (tr1, Inr i)"
      "run_try w i (tr1 @ [Info (Str ''Created check.'')]) = (tr2, Returned)"
      "run w = (tr2, 0)"
proof (cases "createCheck w run_start")
  case (Pair tr1 r)
  show ?thesis
  proof (cases r)
    case (Inl err)
    with Pair show ?thesis by (intro create_failed [of tr1 err]) (simp_all add: run_def)
  next
    case (Inr i)
    obtain tr2 c where t: "run_try w i (tr1 @ [Info (Str ''Created check.'')]) = (tr2, c)"
      by (cases "run_try w i (tr1 @ [Info (Str ''Created check.'')])")
    show ?thesis
    proof (cases c)
      case Returned
      with Pair Inr t show ?thesis by (intro returned [of tr1 i tr2]) (simp_all add: run_def)
    next
      case (Exited code)
      with Pair Inr t show ?thesis by (intro exited [of tr1 i tr2 code]) (simp_all add: run_def)
    next
      case (Threw err)
      with Pair Inr t show ?thesis by (intro caught [of tr1 i tr2 err]) (simp_all add: run_def)
    qed
  qed
qed

lemma run_request_sha:
  assumes "(req, res) \<in> set (exchanges (fst (run w)))"
  shows "head_sha (body req) = GITHUB_SHA (environ w)"
proof (cases w rule: run_cases)
  case (create_failed tr1 err)
  then have "(req, res) \<in> set (exchanges tr1)"
    using assms(1) exitWithError_eq [of err tr1] by simp
  then have "req = create_request w run_start"
    using createCheck_exchanges [OF create_failed(1)] by (simp add: run_start_def)
  then show ?thesis
    by (simp add: create_request_def)
next
  case (caught tr1 i tr2 err)
  have "(req, res) \<in> set (exchanges tr2) \<or> req = update_request w i (Some ''failure'') None tr2"
    using assms(1) caught(3) run_catch_eq [of w i err tr2]
    by auto
  then show ?thesis
    using run_try_exchanges [OF caught(2), of req res] createCheck_set [OF caught(1)]
    by (auto simp: create_request_def update_request_def)
next
  case (exited tr1 i tr2 code)
  then have "(req, res) \<in> set (exchanges tr2)"
    using assms(1) by simp
  from run_try_exchanges [OF exited(2) this] createCheck_set [OF exited(1)]
  show ?thesis
    by (auto simp: create_request_def)
next
  case (returned tr1 i tr2)
  then have "(req, res) \<in> set (exchanges tr2)"
    using assms(1) by simp
  from run_try_exchanges [OF returned(2) this] createCheck_set [OF returned(1)]
  show ?thesis
    by (auto simp: create_request_def)
qed

subsection \<open>Failure of the pull-request query\<close>

text \<open>
  C4, as the code has it. \<open>run\<close> creates the check run before it queries the pull request.
  When the query fails, the check run has already been created; the program then sends
  one completing update for it, with the conclusion \<open>failure\<close> and no output, and the
  process exits with code 1.
\<close>

theorem query_failure_after_open:
  assumes "createCheck w run_start = (tr1, Inr i)"
    and "get_input w = Inr token"
    and "gh_context w = Inr vars"
    and "graphql w vars = Inl err"
  shows "snd (run w) = 1
    \<and> take 7 (fst (run w)) =
        run_start @
        [Request (create_request w run_start) (respond w (create_request w run_start)),
         Info (Str ''Created check.''),
         Graphql vars,
         Request (update_request w i (Some ''failure'') None (tr1 @ [Info (Str ''Created check.''), Graphql vars]))
           (respond w (update_request w i (Some ''failure'') None (tr1 @ [Info (Str ''Created check.''), Graphql vars])))]
    \<and> map fst (exchanges (fst (run w))) =
        [create_request w run_start,
         update_request w i (Some ''failure'') None (tr1 @ [Info (Str ''Created check.''), Graphql vars])]"
proof -
  have tr1: "tr1 = run_start @ [Request (create_request w run_start) (respond w (create_request w run_start))]"
    using createCheck_Inr [OF assms(1)] .
  have "run w = run_catch w i err (tr1 @ [Info (Str ''Created check.''), Graphql vars])"
    using assms(1) run_try_query_fails [OF assms(2-4), of i "tr1 @ [Info (Str ''Created check.'')]"]
    by (simp add: run_def)
  then show ?thesis
    unfolding tr1
    by (auto simp: run_catch_def updateCheck_def exitWithError_def Let_def exchanges_append run_start_def
      split: sum.splits option.splits)
qed

theorem query_failure_after_open_witness:
  "createCheck world_query_fails run_start = (fst (createCheck world_query_fails run_start), Inr (Some 42))
   \<and> get_input world_query_fails = Inr ''t0k''
   \<and> gh_context world_query_fails = Inr vars0
   \<and> graphql world_query_fails vars0 = Inl bad_gateway
   \<and> snd (run world_query_fails) = 1
   \<and> map fst (exchanges (fst (run world_query_fails))) =
       [create_request world_query_fails run_start,
        update_request world_query_fails (Some 42) (Some ''failure'') None
          (fst (createCheck world_query_fails run_start) @ [Info (Str ''Created check.''), Graphql vars0])]"
proof -
  have h1: "createCheck world_query_fails run_start =
              (fst (createCheck world_query_fails run_start), Inr (Some 42))"
    by code_simp
  have h2: "get_input world_query_fails = Inr ''t0k''"
    by (simp add: world_query_fails_def world0_def)
  have h3: "gh_context world_query_fails = Inr vars0"
    by (simp add: world_query_fails_def world0_def)
  have h4: "graphql world_query_fails vars0 = Inl bad_gateway"
    by (simp add: world_query_fails_def)
  from query_failure_after_open [OF h1 h2 h3 h4] h1 h2 h3 h4 show ?thesis
    by blast
qed

text \<open>
  The claim as stated fails: in a run whose query is rejected, the trace holds the
  creating request, answered with the id 42, before the query, and a completing update
  of check run 42 after it.
\<close>

theorem query_failure_counterexample:
  "run world_query_fails =
    ([Info EnvDump, Info Cwd, Info (Str ''Creating check...''),
      Request
        \<lparr>url = ''https://api.github.com/repos/octo/demo/check-runs'',
         http_method = ''POST'',
         headers =
           [(''Content-Type'', ''application/json''),
            (''Accept'', ''application/vnd.github.antiope-preview+json''),
            (''Authorization'', ''Bearer t0k''),
            (''User-Agent'', ''eslint-action'')],
         body =
           \<lparr>name = ''ESLint check'', head_sha = Some ''abc123'',
            status = ''in_progress'', started_at = Some 1003,
            completed_at = None, conclusion = None, body_output = None\<rparr>\<rparr>
        (Inr \<lparr>data = Some (Some 42)\<rparr>),
      Info (Str ''Created check.''),
      Graphql \<lparr>owner = ''octo'', repo = ''demo'', prNumber = 7\<rparr>,
      Request
        \<lparr>url = ''https://api.github.com/repos/octo/demo/check-runs/42'',
         http_method = ''PATCH'',
         headers =
           [(''Content-Type'', ''application/json''),
            (''Accept'', ''application/vnd.github.antiope-preview+json''),
            (''Authorization'', ''Bearer t0k''),
            (''User-Agent'', ''eslint-action'')],
         body =
           \<lparr>name = ''ESLint check'', head_sha = Some ''abc123'',
            status = ''completed'', started_at = None,
            completed_at = Some 1006, conclusion = Some ''failure'',
            body_output = None\<rparr>\<rparr>
        (Inr \<lparr>data = Some (Some 42)\<rparr>),
      Error ''502'', ErrorData ''bad gateway''],
     1)"
  by code_simp

subsection \<open>Nothing to lint\<close>

text \<open>
  C6. When the check run was created, the query answered, and no changed file is
  lintable, the run ends with the warning that there is nothing to lint and with exit
  code 0: the engine is not called and no completing update is sent.
\<close>

theorem nothing_to_lint_is_noop:
  assumes "createCheck w run_start = (tr1, Inr i)"
    and "get_input w = Inr token"
    and "gh_context w = Inr vars"
    and "graphql w vars = Inr prInfo"
    and "commit_oids prInfo = sha # shas"
    and "filesToLint (files prInfo) = []"
  shows "snd (run w) = 0
    \<and> fst (run w) = tr1 @ [Info (Str ''Created check.''), Graphql vars, Info (CommitOid sha),
                             Info (Files (files prInfo)), Warn nothing_to_lint]
    \<and> filter is_lint_call (fst (run w)) = []
    \<and> filter is_update (fst (run w)) = []"
proof -
  have tr1: "tr1 = run_start @ [Request (create_request w run_start) (respond w (create_request w run_start))]"
    using createCheck_Inr [OF assms(1)] .
  have "run w = (tr1 @ [Info (Str ''Created check.''), Graphql vars, Info (CommitOid sha),
                         Info (Files (files prInfo)), Warn nothing_to_lint], 0)"
    using assms by (simp add: run_def run_try_def Let_def)
  then show ?thesis
    unfolding tr1 by (simp add: run_start_def create_request_def)
qed

theorem nothing_to_lint_is_noop_witness:
  "createCheck (world0 [\<lparr>path = ''README.md''\<rparr>] (Inl boom)) run_start =
     (fst (createCheck (world0 [\<lparr>path = ''README.md''\<rparr>] (Inl boom)) run_start), Inr (Some 42))
   \<and> get_input (world0 [\<lparr>path = ''README.md''\<rparr>] (Inl boom)) = Inr ''t0k''
   \<and> gh_context (world0 [\<lparr>path = ''README.md''\<rparr>] (Inl boom)) = Inr vars0
   \<and> graphql (world0 [\<lparr>path = ''README.md''\<rparr>] (Inl boom)) vars0 =
       Inr \<lparr>commit_oids = [''def456''], files = [\<lparr>path = ''README.md''\<rparr>]\<rparr>
   \<and> commit_oids \<lparr>commit_oids = [''def456''], files = [\<lparr>path = ''README.md''\<rparr>]\<rparr> = ''def456'' # []
   \<and> filesToLint (files \<lparr>commit_oids = [''def456''], files = [\<lparr>path = ''README.md''\<rparr>]\<rparr>) = []
   \<and> snd (run (world0 [\<lparr>path = ''README.md''\<rparr>] (Inl boom))) = 0
   \<and> filter is_lint_call (fst (run (world0 [\<lparr>path = ''README.md''\<rparr>] (Inl boom)))) = []
   \<and> filter is_update (fst (run (world0 [\<lparr>path = ''README.md''\<rparr>] (Inl boom)))) = []"
proof -
  let ?w = "world0 [\<lparr>path = ''README.md''\<rparr>] (Inl boom)"
  let ?p = "\<lparr>commit_oids = [''def456''], files = [\<lparr>path = ''README.md''\<rparr>]\<rparr>"
  have h1: "createCheck ?w run_start = (fst (createCheck ?w run_start), Inr (Some 42))"
    by code_simp
  have h2: "get_input ?w = Inr ''t0k''"
    by (simp add: world0_def)
  have h3: "gh_context ?w = Inr vars0"
    by (simp add: world0_def)
  have h4: "graphql ?w vars0 = Inr ?p"
    by (simp add: world0_def)
  have h5: "commit_oids ?p = ''def456'' # []"
    by simp
  have h6: "filesToLint (files ?p) = []"
    by code_simp
  from nothing_to_lint_is_noop [OF h1 h2 h3 h4 h5 h6] h1 h2 h3 h4 h5 h6 show ?thesis
    by blast
qed

subsection \<open>Errors after the check run is open\<close>

text \<open>Every error of the \<open>try\<close> block makes the block throw.\<close>

lemma run_try_throws:
  assumes "get_input w = Inl err
    \<or> get_input w = Inr token \<and> gh_context w = Inl err
    \<or> get_input w = Inr token \<and> gh_context w = Inr vars \<and> graphql w vars = Inl err
    \<or> get_input w = Inr token \<and> gh_context w = Inr vars \<and> graphql w vars = Inr prInfo
        \<and> commit_oids prInfo = []
    \<or> get_input w = Inr token \<and> gh_context w = Inr vars \<and> graphql w vars = Inr prInfo
        \<and> commit_oids prInfo = sha # shas \<and> filesToLint (files prInfo) \<noteq> []
        \<and> engine w engine_options (filesToLint (files prInfo)) = Inl err
    \<or> get_input w = Inr token \<and> gh_context w = Inr vars \<and> graphql w vars = Inr prInfo
        \<and> commit_oids prInfo = sha # shas \<and> filesToLint (files prInfo) \<noteq> []
        \<and> engine w engine_options (filesToLint (files prInfo)) = Inr report
        \<and> results report \<noteq> [] \<and> GITHUB_WORKSPACE (environ w) = None"
  shows "\<exists>tr2 e. run_try w i tr = (tr2, Threw e)"
  using assms
proof (elim disjE conjE)
  assume "get_input w = Inl err"
  then show ?thesis by (simp add: run_try_def)
next
  assume "get_input w = Inr token" "gh_context w = Inl err"
  then show ?thesis by (simp add: run_try_def)
next
  assume "get_input w = Inr token" "gh_context w = Inr vars" "graphql w vars = Inl err"
  then show ?thesis by (simp add: run_try_def)
next
  assume "get_input w = Inr token" "gh_context w = Inr vars" "graphql w vars = Inr prInfo"
    "commit_oids prInfo = []"
  then show ?thesis by (simp add: run_try_def)
next
  assume a: "get_input w = Inr token" "gh_context w = Inr vars" "graphql w vars = Inr prInfo"
    "commit_oids prInfo = sha # shas" "filesToLint (files prInfo) \<noteq> []"
    and e: "engine w engine_options (filesToLint (files prInfo)) = Inl err"
  obtain E where "fst (eslint w (filesToLint (files prInfo)) []) = E"
    by simp
  then have "eslint w (filesToLint (files prInfo)) t = (t @ E, Inl err)" for t
    using eslint_throws_engine [OF e, where tr = "[]"] eslint_trace_split [of w "filesToLint (files prInfo)" t]
    by simp
  with a show ?thesis
    by (simp add: run_try_def Let_def)
next
  assume a: "get_input w = Inr token" "gh_context w = Inr vars" "graphql w vars = Inr prInfo"
    "commit_oids prInfo = sha # shas" "filesToLint (files prInfo) \<noteq> []"
    and e: "engine w engine_options (filesToLint (files prInfo)) = Inr report"
      "results report \<noteq> []" "GITHUB_WORKSPACE (environ w) = None"
  obtain E where "fst (eslint w (filesToLint (files prInfo)) []) = E"
    by simp
  then have "eslint w (filesToLint (files prInfo)) t =
          (t @ E, Inl (TypeError ''Cannot read property length of undefined''))" for t
    using eslint_throws_workspace [OF e, where tr = "[]"] eslint_trace_split [of w "filesToLint (files prInfo)" t]
    by simp
  with a show ?thesis
    by (simp add: run_try_def Let_def)
qed

lemma run_try_rejected:
  assumes "createCheck w run_start = (tr1, Inr i)"
    and "run_try w i (tr1 @ [Info (Str ''Created check.'')]) = (tr2, c)"
    and "(req, Inl err) \<in> set (exchanges tr2)"
  shows "c = Threw err"
proof -
  have "respond w (create_request w run_start) \<noteq> Inl err"
    using assms(1) by (auto simp: createCheck_def Let_def split: sum.splits option.splits)
  then have "(req, Inl err) \<notin> set (exchanges (tr1 @ [Info (Str ''Created check.'')]))"
    using createCheck_set [OF assms(1)] by auto
  with run_try_exchanges [OF assms(2,3)] show ?thesis
    by simp
qed

lemma run_threw:
  assumes "createCheck w run_start = (tr1, Inr i)"
    and "run_try w i (tr1 @ [Info (Str ''Created check.'')]) = (tr2, Threw err)"
  shows "snd (run w) = 1
    \<and> exchanges (fst (run w)) =
        exchanges tr2 @ [(update_request w i (Some ''failure'') None tr2,
                          respond w (update_request w i (Some ''failure'') None tr2))]"
proof -
  from assms have "run w = run_catch w i err tr2"
    by (simp add: run_def)
  then show ?thesis
    using run_catch_eq [of w i err tr2] by simp
qed

text \<open>
  C7. Let \<open>createCheck\<close> have returned the id \<open>i\<close>, and let one of the errors of the
  \<open>try\<close> block occur: the token cannot be read, the context cannot be read, the
  pull-request query fails, its answer has no commit, the engine crashes, the
  normalisation throws (a result to rebase while the workspace root is not set), or a
  request of the block is rejected. Then the next and last request of the run is a
  completing update of check run \<open>i\<close> with the conclusion \<open>failure\<close> and no output,
  whatever its answer, and the exit code is 1.
\<close>

theorem error_after_open_forces_failure:
  assumes "createCheck w run_start = (tr1, Inr i)"
    and "get_input w = Inl err
    \<or> get_input w = Inr token \<and> gh_context w = Inl err
    \<or> get_input w = Inr token \<and> gh_context w = Inr vars \<and> graphql w vars = Inl err
    \<or> get_input w = Inr token \<and> gh_context w = Inr vars \<and> graphql w vars = Inr prInfo
        \<and> commit_oids prInfo = []
    \<or> get_input w = Inr token \<and> gh_context w = Inr vars \<and> graphql w vars = Inr prInfo
        \<and> commit_oids prInfo = sha # shas \<and> filesToLint (files prInfo) \<noteq> []
        \<and> engine w engine_options (filesToLint (files prInfo)) = Inl err
    \<or> get_input w = Inr token \<and> gh_context w = Inr vars \<and> graphql w vars = Inr prInfo
        \<and> commit_oids prInfo = sha # shas \<and> filesToLint (files prInfo) \<noteq> []
        \<and> engine w engine_options (filesToLint (files prInfo)) = Inr report
        \<and> results report \<noteq> [] \<and> GITHUB_WORKSPACE (environ w) = None
    \<or> (req, Inl err) \<in> set (exchanges (fst (run_try w i (tr1 @ [Info (Str ''Created check.'')]))))"
  shows "snd (run w) = 1
    \<and> exchanges (fst (run w)) =
        exchanges (fst (run_try w i (tr1 @ [Info (Str ''Created check.'')]))) @
        [(update_request w i (Some ''failure'') None (fst (run_try w i (tr1 @ [Info (Str ''Created check.'')]))),
          respond w (update_request w i (Some ''failure'') None
            (fst (run_try w i (tr1 @ [Info (Str ''Created check.'')])))))]
    \<and> url (update_request w i (Some ''failure'') None (fst (run_try w i (tr1 @ [Info (Str ''Created check.'')]))))
        = check_runs_url (environ w) @ ''/'' @ show_id i
    \<and> status (body (update_request w i (Some ''failure'') None
          (fst (run_try w i (tr1 @ [Info (Str ''Created check.'')]))))) = ''completed''
    \<and> conclusion (body (update_request w i (Some ''failure'') None
          (fst (run_try w i (tr1 @ [Info (Str ''Created check.'')]))))) = Some ''failure''
    \<and> body_output (body (update_request w i (Some ''failure'') None
          (fst (run_try w i (tr1 @ [Info (Str ''Created check.'')]))))) = None"
proof -
  let ?tr = "tr1 @ [Info (Str ''Created check.'')]"
  obtain tr2 c where t: "run_try w i ?tr = (tr2, c)"
    by (cases "run_try w i ?tr")
  have "\<exists>e. c = Threw e"
  proof (cases "(req, Inl err) \<in> set (exchanges (fst (run_try w i ?tr)))")
    case True
    with t run_try_rejected [OF assms(1) t, of req err] show ?thesis
      by simp
  next
    case False
    with assms(2) run_try_throws [of w err token vars prInfo sha shas report i ?tr] t
    show ?thesis
      by auto
  qed
  then obtain e where "run_try w i ?tr = (tr2, Threw e)"
    using t by blast
  from run_threw [OF assms(1) this] t show ?thesis
    by (simp add: update_request_def)
qed

theorem error_after_open_forces_failure_witness:
  "graphql world_query_fails vars0 = Inl bad_gateway
   \<and> snd (run world_query_fails) = 1
   \<and> engine world_engine_crash engine_options [''a.js''] = Inl boom
   \<and> snd (run world_engine_crash) = 1
   \<and> GITHUB_WORKSPACE (environ world_no_workspace) = None
   \<and> engine world_no_workspace engine_options [''a.js''] = Inr (report0 ''/home/ws/a.js'' 2 1 0)
   \<and> snd (run world_no_workspace) = 1"
proof -
  let ?p = "\<lparr>commit_oids = [''def456''], files = [\<lparr>path = ''a.js''\<rparr>]\<rparr>"
  let ?rep = "report0 ''/home/ws/a.js'' 2 1 0"
  let ?req = "create_request world_query_fails run_start"
  have q1: "createCheck world_query_fails run_start =
              (fst (createCheck world_query_fails run_start), Inr (Some 42))"
    by code_simp
  have q2: "get_input world_query_fails = Inr ''t0k''" "gh_context world_query_fails = Inr vars0"
    "graphql world_query_fails vars0 = Inl bad_gateway"
    by (simp_all add: world_query_fails_def world0_def)
  have c1: "createCheck world_engine_crash run_start =
              (fst (createCheck world_engine_crash run_start), Inr (Some 42))"
    by code_simp
  have c2: "get_input world_engine_crash = Inr ''t0k''" "gh_context world_engine_crash = Inr vars0"
    "graphql world_engine_crash vars0 = Inr ?p" "commit_oids ?p = ''def456'' # []"
    by (simp_all add: world_engine_crash_def world0_def)
  have c3: "filesToLint (files ?p) = [''a.js'']"
    by code_simp
  have c4: "engine world_engine_crash engine_options [''a.js''] = Inl boom"
    by (simp add: world_engine_crash_def world0_def)
  have n1: "createCheck world_no_workspace run_start =
              (fst (createCheck world_no_workspace run_start), Inr (Some 42))"
    by code_simp
  have n2: "get_input world_no_workspace = Inr ''t0k''" "gh_context world_no_workspace = Inr vars0"
    "graphql world_no_workspace vars0 = Inr ?p"
    by (simp_all add: world_no_workspace_def world0_def)
  have n4: "engine world_no_workspace engine_options [''a.js''] = Inr ?rep"
    by (simp add: world_no_workspace_def world0_def)
  have n5: "results ?rep \<noteq> []"
    by (simp add: report0_def)
  have n6: "GITHUB_WORKSPACE (environ world_no_workspace) = None"
    by (simp add: world_no_workspace_def)
  have r1: "snd (run world_query_fails) = 1"
    using error_after_open_forces_failure [OF q1, where err = bad_gateway and token = "''t0k''"
        and vars = vars0 and prInfo = ?p and sha = "''def456''" and shas = "[]" and report = ?rep and req = ?req]
      q2 by blast
  have r2: "snd (run world_engine_crash) = 1"
    using error_after_open_forces_failure [OF c1, where err = boom and token = "''t0k''"
        and vars = vars0 and prInfo = ?p and sha = "''def456''" and shas = "[]" and report = ?rep and req = ?req]
      c2 c3 c4 by simp
  have r3: "snd (run world_no_workspace) = 1"
    using error_after_open_forces_failure [OF n1, where err = boom and token = "''t0k''"
        and vars = vars0 and prInfo = ?p and sha = "''def456''" and shas = "[]" and report = ?rep and req = ?req]
      n2 c2(4) c3 n4 n5 n6 by simp
  from q2 r1 c4 r2 n6 n4 r3 show ?thesis
    by blast
qed

subsection \<open>Exit code after the report\<close>



subsection \<open>The head commit of a check-run request\<close>

lemma update_request_length:
  "length tr' = length tr \<Longrightarrow> update_request w i c out tr' = update_request w i c out tr"
  by (simp add: update_request_def)

lemma rename_oids_fields:
  "environ (rename_oids f w) = environ w"
  "now (rename_oids f w) = now w"
  "respond (rename_oids f w) = respond w"
  "get_input (rename_oids f w) = get_input w"
  "gh_context (rename_oids f w) = gh_context w"
  "existsSync (rename_oids f w) = existsSync w"
  "engine (rename_oids f w) = engine w"
  "graphql (rename_oids f w) v = map_sum id (\<lambda>p. p\<lparr>commit_oids := map f (commit_oids p)\<rparr>) (graphql w v)"
  by (simp_all add: rename_oids_def)

lemma rename_oids_same:
  "eslint (rename_oids f w) = eslint w"
  "updateCheck (rename_oids f w) = updateCheck w"
  "createCheck (rename_oids f w) = createCheck w"
  "isFileOk (rename_oids f w) = isFileOk w"
  by (simp_all add: fun_eq_iff eslint_def updateCheck_def createCheck_def isFileOk_def
      update_request_def create_request_def rename_oids_fields
      cong: sum.case_cong prod.case_cong)

lemma run_catch_rename: "run_catch (rename_oids f w) = run_catch w"
  by (simp add: fun_eq_iff run_catch_def rename_oids_same)

lemma run_try_rename:
  "snd (run_try (rename_oids f w) i tr) = snd (run_try w i tr) \<and>
   length (fst (run_try (rename_oids f w) i tr)) = length (fst (run_try w i tr)) \<and>
   exchanges (fst (run_try (rename_oids f w) i tr)) = exchanges (fst (run_try w i tr))"
proof (cases "get_input w")
  case (Inl err)
  then show ?thesis
    by (simp add: run_try_def rename_oids_fields)
next
  case token: (Inr token)
  show ?thesis
  proof (cases "gh_context w")
    case (Inl err)
    with token show ?thesis
      by (simp add: run_try_def rename_oids_fields)
  next
    case vars: (Inr vars)
    show ?thesis
    proof (cases "graphql w vars")
      case (Inl err)
      with token vars show ?thesis
        by (simp add: run_try_def rename_oids_fields)
    next
      case info: (Inr p)
      show ?thesis
      proof (cases "commit_oids p")
        case Nil
        with token vars info show ?thesis
          by (simp add: run_try_def rename_oids_fields)
      next
        case (Cons sha shas)
        show ?thesis
        proof (cases "filesToLint (files p) = []")
          case True
          with token vars info Cons show ?thesis
            by (simp add: run_try_def rename_oids_fields exchanges_append)
        next
          case False
          obtain E R where e0: "eslint w (filesToLint (files p)) [] = (E, R)"
            by (cases "eslint w (filesToLint (files p)) []")
          have es: "eslint w (filesToLint (files p)) t = (t @ E, R)" for t
            using eslint_trace_split [of w "filesToLint (files p)" t] e0 by simp
          show ?thesis
          proof (cases R)
            case (Inl err)
            with token vars info Cons False es show ?thesis
              by (simp add: run_try_def Let_def rename_oids_fields rename_oids_same exchanges_append)
          next
            case (Inr ret)
            with token vars info Cons False es show ?thesis
              by (simp add: run_try_def Let_def rename_oids_fields rename_oids_same exchanges_append
                  updateCheck_def update_request_def split: sum.splits)
          qed
        qed
      qed
    qed
  qed
qed

lemma const_map: "(\<And>x. x \<in> set xs \<Longrightarrow> g x = c) \<Longrightarrow> map g xs = replicate (length xs) c"
  by (induction xs) auto

lemma run_rename:
  "exchanges (fst (run (rename_oids f w))) = exchanges (fst (run w)) \<and>
   snd (run (rename_oids f w)) = snd (run w)"
proof (cases "createCheck w run_start")
  case (Pair tr1 r)
  show ?thesis
  proof (cases r)
    case (Inl err)
    with Pair show ?thesis
      by (simp add: run_def rename_oids_same)
  next
    case (Inr i)
    let ?tr = "tr1 @ [Info (Str ''Created check.'')]"
    obtain tr2 c where t: "run_try w i ?tr = (tr2, c)"
      by (cases "run_try w i ?tr")
    obtain tr2' c' where t': "run_try (rename_oids f w) i ?tr = (tr2', c')"
      by (cases "run_try (rename_oids f w) i ?tr")
    from run_try_rename [of f w i ?tr] t t'
    have same: "c' = c" "length tr2' = length tr2" "exchanges tr2' = exchanges tr2"
      by simp_all
    show ?thesis
    proof (cases c)
      case (Threw err)
      with Pair Inr t t' same show ?thesis
        using run_catch_eq [of w i err tr2] run_catch_eq [of w i err tr2']
          update_request_length [OF same(2), of w i "Some ''failure''" None]
        by (simp add: run_def rename_oids_same run_catch_rename)
    next
      case Returned
      with Pair Inr t t' same show ?thesis
        by (simp add: run_def rename_oids_same)
    next
      case (Exited code)
      with Pair Inr t t' same show ?thesis
        by (simp add: run_def rename_oids_same)
    qed
  qed
qed

text \<open>
  C9. The bodies built by \<open>createCheck\<close> and \<open>updateCheck\<close> take \<open>head_sha\<close> from
  \<open>GITHUB_SHA\<close>, and so does every request of every run. The oid returned by the query
  is not used: replacing every returned oid by any other string changes no request, no
  answer and not the exit code.
\<close>

theorem check_runs_use_GITHUB_SHA:
  "head_sha (body (create_request w tr)) = GITHUB_SHA (environ w)
   \<and> head_sha (body (update_request w i c out tr)) = GITHUB_SHA (environ w)
   \<and> map (\<lambda>x. head_sha (body (fst x))) (exchanges (fst (run w))) =
       replicate (length (exchanges (fst (run w)))) (GITHUB_SHA (environ w))
   \<and> exchanges (fst (run (rename_oids f w))) = exchanges (fst (run w))
   \<and> snd (run (rename_oids f w)) = snd (run w)"
proof -
  have "map (\<lambda>x. head_sha (body (fst x))) (exchanges (fst (run w))) =
       replicate (length (exchanges (fst (run w)))) (GITHUB_SHA (environ w))"
    by (rule const_map) (auto dest: run_request_sha)
  then show ?thesis
    using run_rename [of f w] by (simp add: create_request_def update_request_def)
qed

theorem check_runs_use_GITHUB_SHA_witness:
  "map (\<lambda>x. head_sha (body (fst x)))
       (exchanges (fst (run (world0 [\<lparr>path = ''a.js''\<rparr>] (Inr (report0 ''/home/ws/a.js'' 2 1 0)))))) =
     [Some ''abc123'', Some ''abc123'']
   \<and> snd (run (rename_oids (\<lambda>oid. ''0000'') (world0 [\<lparr>path = ''a.js''\<rparr>] (Inr (report0 ''/home/ws/a.js'' 2 1 0))))) = 78"
proof -
  let ?w = "world0 [\<lparr>path = ''a.js''\<rparr>] (Inr (report0 ''/home/ws/a.js'' 2 1 0))"
  have h1: "length (exchanges (fst (run ?w))) = Suc (Suc 0)"
    by code_simp
  have h2: "GITHUB_SHA (environ ?w) = Some ''abc123''"
    by (simp add: world0_def env0_def)
  have h3: "snd (run ?w) = 78"
    by code_simp
  from check_runs_use_GITHUB_SHA [of ?w _ _ _ _ "\<lambda>oid. ''0000''"] h1 h2 h3 show ?thesis
    by simp
qed

end
